theory Spec2Isabelle
  imports Main
begin

section \<open>Strings of the Go runtime\<close>

text \<open>
  A Go string is a sequence of bytes, here a \<^typ>\<open>string\<close>.
\<close>

definition HasSuffix :: "string \<Rightarrow> string \<Rightarrow> bool" where
  "HasSuffix s suffix =
     (length suffix \<le> length s \<and> drop (length s - length suffix) s = suffix)"

text \<open>
  \<^verbatim>\<open>strings.Split(url, "/")\<close>: the segments between the slashes; a string without
  a slash (the empty one too) is one segment.
\<close>

fun Split :: "string \<Rightarrow> string list" where
  "Split [] = [[]]"
| "Split (c # cs) =
     (if c = CHR ''/'' then [] # Split cs
      else (case Split cs of
              [] \<Rightarrow> [[c]]
            | seg # segs \<Rightarrow> (c # seg) # segs))"

section \<open>Data of the watcher\<close>

text \<open>
  Go's \<^verbatim>\<open>error\<close> values: one handed back by the operating system or a library,
  one made by \<^verbatim>\<open>errors.New\<close>, and one made by \<^verbatim>\<open>fmt.Errorf\<close> from a format
  (kept verbatim) around the error it wraps with \<^verbatim>\<open>%w\<close>.
\<close>

datatype error =
    External string
  | New string
  | Errorf string "error option"

text \<open>
  \<^verbatim>\<open>upgradetypes.Plan\<close> with the fields the watcher reads; \<open>Height\<close> is an
  \<^verbatim>\<open>int64\<close> that the watcher only compares, so it is an \<^typ>\<open>int\<close>.
\<close>

record Plan =
  Name :: string
  Height :: int
  Info :: string

text \<open>
  A \<^verbatim>\<open>time.Time\<close> is an instant, counted from the zero value \<^verbatim>\<open>time.Time{}\<close>;
  \<open>After\<close> is the strict order of instants.
\<close>

type_synonym Time = int

definition After :: "Time \<Rightarrow> Time \<Rightarrow> bool" where
  "After t u = (u < t)"

record FileInfo =
  ModTime :: Time
  IsDir :: bool

text \<open>
  \<^verbatim>\<open>fileWatcher\<close>. The channel \<open>cancel\<close> and the \<open>ticker\<close> carry no data of
  their own: the signals they deliver are the input of \<open>monitorLoop\<close> below.
\<close>

record fileWatcher =
  filename :: string
  interval :: int
  currentBin :: string
  currentInfo :: Plan
  lastModTime :: Time
  needsUpdate :: bool
  initialized :: bool
  disableRecase :: bool

record callbackInfo =
  cbName :: string
  cbVersion :: string
  cbRepo :: string
  cbInfo :: string
  cbHeight :: int

text \<open>
  What the watcher asks of its surroundings during one call, each as the function from
  the arguments of the call to what it returns: the operating system (\<open>os.Args[0]\<close>,
  \<open>os.Stat\<close>, \<open>os.ReadFile\<close>, \<open>os.Getenv\<close>, \<open>filepath.Abs\<close>, \<open>filepath.Dir\<close>,
  \<open>exec.Command(bin, args).Output()\<close>), \<open>json.Unmarshal\<close> into a plan and into the
  status response (of which \<open>SyncInfo.LatestBlockHeight\<close> is kept), \<open>json.Marshal\<close>
  of a callback, \<open>strconv.ParseInt(s, 10, 64)\<close>, and \<open>plan.ParseInfo\<close> with the
  \<open>Binaries\<close> of its result in the order the loop ranges over them.

  The last two fields are what package \<^verbatim>\<open>strings\<close> computes from the tables of
  package \<^verbatim>\<open>unicode\<close>, which are not written out here. \<open>equalFoldUnicode\<close> is the
  loop of \<^verbatim>\<open>strings.EqualFold\<close> after its label \<^verbatim>\<open>hasUnicode\<close>: the comparison of
  two strings rune by rune under \<^verbatim>\<open>unicode.SimpleFold\<close>. \<open>toLowerUnicode\<close> is
  \<^verbatim>\<open>strings.Map(unicode.ToLower, s)\<close> for a string \<open>s\<close> with a byte that is not
  ASCII; \<^verbatim>\<open>unicode.ToLower\<close> drops no rune, so the result of that call is not empty
  and is given as its first byte and the rest.
\<close>

record world =
  osArgs0 :: string
  osStat :: "string \<Rightarrow> error + FileInfo"
  osReadFile :: "string \<Rightarrow> error + string"
  osGetenv :: "string \<Rightarrow> string"
  filepathAbs :: "string \<Rightarrow> error + string"
  filepathDir :: "string \<Rightarrow> string"
  execOutput :: "string \<Rightarrow> string list \<Rightarrow> error + string"
  jsonUnmarshalPlan :: "string \<Rightarrow> error + Plan"
  jsonUnmarshalStatus :: "string \<Rightarrow> error + string"
  jsonMarshal :: "callbackInfo \<Rightarrow> error + string"
  strconvParseInt :: "string \<Rightarrow> int \<times> error option"
  planParseInfo :: "string \<Rightarrow> error + string list"
  equalFoldUnicode :: "string \<Rightarrow> string \<Rightarrow> bool"
  toLowerUnicode :: "string \<Rightarrow> char \<times> string"

text \<open>
  The calls a run makes to the operating system, to the libraries and to the extractor,
  in the order they are made.
\<close>

datatype event =
    OsStat string
  | OsReadFile string
  | PlanParseInfo string
  | GetVersionAndRepo string
  | ExecCommand string "string list"
  | Println string
  | HttpPost string string string

text \<open>
  The fields of \<^verbatim>\<open>Config\<close> that \<^verbatim>\<open>newUpgradeFileWatcher\<close> reads, with what the
  methods \<open>UpgradeInfoFilePath\<close> and \<open>CurrentBin\<close> return.
\<close>

record Config =
  UpgradeInfoFilePath :: string
  CurrentBin :: "error + string"
  PollInterval :: int
  DisableRecase :: bool

definition newUpgradeFileWatcher :: "world \<Rightarrow> Config \<Rightarrow> error + fileWatcher" where
  "newUpgradeFileWatcher w cfg =
     (let fname = UpgradeInfoFilePath cfg in
      if fname = [] then Inl (New ''filename undefined'')
      else
        (case filepathAbs w fname of
           Inl err \<Rightarrow> Inl (Errorf ''invalid path: %s must be a valid file path: %w'' (Some err))
         | Inr filenameAbs \<Rightarrow>
             (case osStat w (filepathDir w fname) of
                Inl err \<Rightarrow>
                  Inl (Errorf ''invalid path: %s must be an existing directory: %w'' (Some err))
              | Inr dirInfo \<Rightarrow>
                  if \<not> IsDir dirInfo
                  then Inl (Errorf ''invalid path: %s must be an existing directory: %w'' None)
                  else
                    (case CurrentBin cfg of
                       Inl err \<Rightarrow> Inl (Errorf ''error creating symlink to genesis: %w'' (Some err))
                     | Inr bin \<Rightarrow>
                         Inr \<lparr>filename = filenameAbs,
                              interval = PollInterval cfg,
                              currentBin = bin,
                              currentInfo = \<lparr>Name = [], Height = 0, Info = []\<rparr>,
                              lastModTime = 0,
                              needsUpdate = False,
                              initialized = False,
                              disableRecase = DisableRecase cfg\<rparr>))))"

section \<open>Case folding\<close>

text \<open>
  A byte below \<^verbatim>\<open>utf8.RuneSelf\<close> (128) is an ASCII character; the upper-case letters
  are \<^verbatim>\<open>'A' <= c && c <= 'Z'\<close>, and \<^verbatim>\<open>c + 'a' - 'A'\<close> is the lower-case letter
  of one.
\<close>

definition isASCII :: "char \<Rightarrow> bool" where
  "isASCII c = ((of_char c :: nat) < 128)"

definition isUpper :: "char \<Rightarrow> bool" where
  "isUpper c = (c \<in> set ''ABCDEFGHIJKLMNOPQRSTUVWXYZ'')"

definition toLowerChar :: "char \<Rightarrow> char" where
  "toLowerChar c = (if isUpper c then char_of (of_char c + (32::nat)) else c)"

text \<open>
  \<^verbatim>\<open>strings.ToLower\<close>: a string of ASCII bytes is returned as it is when it has no
  upper-case letter, and with its upper-case letters replaced otherwise; any other string
  is mapped rune by rune with \<^verbatim>\<open>unicode.ToLower\<close>.
\<close>

definition ToLower :: "world \<Rightarrow> string \<Rightarrow> string" where
  "ToLower w s =
     (if list_all isASCII s
      then (if list_ex isUpper s then map toLowerChar s else s)
      else (case toLowerUnicode w s of (c, cs) \<Rightarrow> c # cs))"

text \<open>
  \<^verbatim>\<open>strings.EqualFold\<close>. The first loop compares byte by byte as long as both bytes
  are ASCII: equal bytes go on, and so do two bytes of which the smaller is an upper-case
  letter and the greater its lower-case letter; any other pair ends the comparison with
  false. When one string ends there, the strings are equal if the other ends too. At the
  first position with a byte that is not ASCII the comparison goes on, from that position,
  rune by rune (\<^verbatim>\<open>hasUnicode\<close>).
\<close>

fun EqualFold :: "world \<Rightarrow> string \<Rightarrow> string \<Rightarrow> bool" where
  "EqualFold w [] [] = True"
| "EqualFold w [] (tr # t) = False"
| "EqualFold w (sr # s) [] = False"
| "EqualFold w (sr # s) (tr # t) =
     (if \<not> isASCII sr \<or> \<not> isASCII tr then equalFoldUnicode w (sr # s) (tr # t)
      else if tr = sr then EqualFold w s t
      else (let lo = (if (of_char tr :: nat) < of_char sr then tr else sr);
                hi = (if (of_char tr :: nat) < of_char sr then sr else tr)
            in if isUpper lo \<and> hi = toLowerChar lo then EqualFold w s t else False))"

section \<open>The version and repository extractor\<close>

text \<open>
  The regular expression \<^verbatim>\<open>^[vV]\d+\.\d+\.\d+\<close> of \<^verbatim>\<open>getVersionAndRepoFromUrl\<close>,
  as \<^verbatim>\<open>regexp.MatchString\<close> decides it: anchored at the start of the segment, open
  at its end. A digit is never a dot, so each \<^verbatim>\<open>\d+\<close> before a dot takes the whole
  run of digits.
\<close>

definition isDigit :: "char \<Rightarrow> bool" where
  "isDigit c = (c \<in> set ''0123456789'')"

definition digits1 :: "string \<Rightarrow> string option" where
  "digits1 s =
     (case s of
        [] \<Rightarrow> None
      | c # r \<Rightarrow> if isDigit c then Some (dropWhile isDigit r) else None)"

definition dot1 :: "string \<Rightarrow> string option" where
  "dot1 s =
     (case s of
        [] \<Rightarrow> None
      | c # r \<Rightarrow> if c = CHR ''.'' then Some r else None)"

definition matchVersion :: "string \<Rightarrow> bool" where
  "matchVersion str =
     (case str of
        [] \<Rightarrow> False
      | c # r \<Rightarrow>
          (c = CHR ''v'' \<or> c = CHR ''V'') \<and>
          (case Option.bind (Option.bind (Option.bind (digits1 r) dot1) digits1) dot1 of
             None \<Rightarrow> False
           | Some r' \<Rightarrow> digits1 r' \<noteq> None))"

text \<open>
  The loop of \<^verbatim>\<open>getVersionAndRepoFromUrl\<close> over the segments that are left, with the
  loop variables \<open>idx\<close>, \<open>githubIdx\<close> and \<open>repo\<close>; it returns \<open>repo\<close>,
  \<open>githubIdx\<close> and \<open>ver\<close> as they are when the loop ends or breaks. The
  surroundings \<open>w\<close> are there for \<^verbatim>\<open>strings.EqualFold\<close> only.
\<close>

fun scanSegments ::
  "world \<Rightarrow> string list \<Rightarrow> int \<Rightarrow> int \<Rightarrow> string \<Rightarrow> string \<times> int \<times> string" where
  "scanSegments w [] idx githubIdx repo = (repo, githubIdx, [])"
| "scanSegments w (str # rest) idx githubIdx repo =
     (let githubIdx' = (if EqualFold w str ''github.com'' then idx else githubIdx);
          repo' = (if githubIdx' < 0 \<or> idx \<le> githubIdx' + 2
                   then (if idx > 0 then repo @ ''/'' else repo) @ str
                   else repo)
      in if matchVersion str then (repo', githubIdx', str)
         else scanSegments w rest (idx + 1) githubIdx' repo')"

definition getVersionAndRepoFromUrl :: "world \<Rightarrow> string \<Rightarrow> string \<times> string" where
  "getVersionAndRepoFromUrl w url =
     (case scanSegments w (Split url) 0 (- 1) [] of
        (repo, githubIdx, ver) \<Rightarrow> (if githubIdx < 0 then [] else repo, ver))"

section \<open>Reading the plan file\<close>

text \<open>
  Modelled from the spec: \<^verbatim>\<open>Plan.ValidateBasic\<close> of \<^verbatim>\<open>cosmossdk.io/x/upgrade/types\<close>
  is not among the sources; the specification gives its rule as "name non-empty, height
  positive".
\<close>

definition ValidateBasic :: "Plan \<Rightarrow> error option" where
  "ValidateBasic p =
     (if Name p = [] then Some (External ''name cannot be empty'')
      else if Height p \<le> 0 then Some (External ''height must be greater than 0'')
      else None)"

definition parseUpgradeInfoFile :: "world \<Rightarrow> string \<Rightarrow> bool \<Rightarrow> error + Plan" where
  "parseUpgradeInfoFile w fname norecase =
     (case osReadFile w fname of
        Inl err \<Rightarrow> Inl err
      | Inr f \<Rightarrow>
          if length f = 0 then Inl (New ''empty upgrade-info.json'')
          else
            (case jsonUnmarshalPlan w f of
               Inl err \<Rightarrow> Inl err
             | Inr upgradePlan \<Rightarrow>
                 (case ValidateBasic upgradePlan of
                    Some err \<Rightarrow>
                      Inl (Errorf ''invalid upgrade-info.json content: %w, got: %v'' (Some err))
                  | None \<Rightarrow>
                      Inr (if \<not> norecase
                           then upgradePlan\<lparr>Name := ToLower w (Name upgradePlan)\<rparr>
                           else upgradePlan))))"

section \<open>The height probe\<close>

definition checkHeight :: "world \<Rightarrow> fileWatcher \<Rightarrow> (int \<times> error option) \<times> event list" where
  "checkHeight w fw =
     (if HasSuffix (osArgs0 w) ''.test'' then ((0, None), [])
      else
        (case execOutput w (currentBin fw) [''status''] of
           Inl err \<Rightarrow> ((0, Some err), [ExecCommand (currentBin fw) [''status'']])
         | Inr result \<Rightarrow>
             (case jsonUnmarshalStatus w result of
                Inl err \<Rightarrow> ((0, Some err), [ExecCommand (currentBin fw) [''status'']])
              | Inr latestBlockHeight \<Rightarrow>
                  if latestBlockHeight = []
                  then ((0, Some (New ''latest block height is empty'')),
                        [ExecCommand (currentBin fw) [''status'']])
                  else (strconvParseInt w latestBlockHeight,
                        [ExecCommand (currentBin fw) [''status'']]))))"

section \<open>The callbacks\<close>

definition upgradeDetectedCallback :: "world \<Rightarrow> string \<Rightarrow> event list" where
  "upgradeDetectedCallback w callbackJson =
     (let callbackUrl = osGetenv w ''CALLBACK_API'' @ ''/internal/cosmos/'' @ osGetenv w ''NODE_ID''
                        @ ''/'' @ osGetenv w ''DEPLOYMENT_ID'' @ ''/cosmos_notify_upgrade''
      in [Println (''upgrade callback to '' @ callbackUrl),
          HttpPost callbackUrl ''application/json'' callbackJson])"

definition upgradeHeightReachedCallback :: "world \<Rightarrow> string \<Rightarrow> event list" where
  "upgradeHeightReachedCallback w callbackJson =
     (let callbackUrl = osGetenv w ''CALLBACK_API'' @ ''/internal/cosmos/'' @ osGetenv w ''NODE_ID''
                        @ ''/'' @ osGetenv w ''DEPLOYMENT_ID'' @ ''/cosmos_upgrade_height_reached''
      in [Println (''upgrade height callback to '' @ callbackUrl),
          HttpPost callbackUrl ''application/json'' callbackJson])"

section \<open>The decision routine\<close>

text \<open>
  The loop of \<^verbatim>\<open>CheckUpdate\<close> over \<open>upgradeInfo.Binaries\<close>: \<open>repo\<close> and
  \<open>version\<close> are assigned from every URL it visits, and it breaks at the first URL
  with a version.
\<close>

fun extractLoop ::
  "world \<Rightarrow> string list \<Rightarrow> string \<Rightarrow> string \<Rightarrow> (string \<times> string) \<times> event list" where
  "extractLoop w [] repo version = ((repo, version), [])"
| "extractLoop w (url # urls) repo version =
     (case getVersionAndRepoFromUrl w url of
        (repo', version') \<Rightarrow>
          if version' \<noteq> [] then ((repo', version'), [GetVersionAndRepo url])
          else (case extractLoop w urls repo' version' of
                  (rv, evs) \<Rightarrow> (rv, GetVersionAndRepo url # evs)))"

text \<open>
  Lines 134 to 159 of \<^verbatim>\<open>CheckUpdate\<close>: the version and the repository of the plan,
  the callback made of them, and the "upgrade detected" notice, sent when the callback
  could be marshalled. The result is \<open>callbackJson\<close> (\<open>nil\<close>, the empty sequence of
  bytes, when \<^verbatim>\<open>json.Marshal\<close> failed) with the calls made.
\<close>

definition notifyDetected :: "world \<Rightarrow> Plan \<Rightarrow> string \<times> event list" where
  "notifyDetected w info =
     (case (case planParseInfo w (Info info) of
              Inl err \<Rightarrow> (([], []), [])
            | Inr binaries \<Rightarrow> extractLoop w binaries [] []) of
        ((repo, version), evs) \<Rightarrow>
          (let callback = \<lparr>cbName = Name info, cbVersion = version, cbRepo = repo,
                           cbInfo = Info info, cbHeight = Height info\<rparr>
           in case jsonMarshal w callback of
                Inl err \<Rightarrow> ([], PlanParseInfo (Info info) # evs)
              | Inr callbackJson \<Rightarrow>
                  (callbackJson,
                   PlanParseInfo (Info info) # evs @ upgradeDetectedCallback w callbackJson)))"

text \<open>
  A call of \<^verbatim>\<open>CheckUpdate\<close> returns a boolean or panics. The model returns that
  outcome, the watcher as the call leaves it, and the calls made:
  \<^verbatim>\<open>parseUpgradeInfoFile\<close> reads the file once, whatever it returns, which is the
  \<open>OsReadFile\<close> after the \<open>OsStat\<close>.
\<close>

datatype outcome = Returned bool | Panicked error

definition CheckUpdate :: "world \<Rightarrow> fileWatcher \<Rightarrow> Plan \<Rightarrow> outcome \<times> fileWatcher \<times> event list" where
  "CheckUpdate w fw currentUpgrade =
     (if needsUpdate fw then (Returned True, fw, [])
      else
        (case osStat w (filename fw) of
           Inl err \<Rightarrow> (Returned False, fw, [OsStat (filename fw)])
         | Inr stat \<Rightarrow>
             if \<not> After (ModTime stat) (lastModTime fw)
             then (Returned False, fw, [OsStat (filename fw)])
             else
               (case parseUpgradeInfoFile w (filename fw) (disableRecase fw) of
                  Inl err \<Rightarrow>
                    (Panicked (Errorf ''failed to parse upgrade info file: %w'' (Some err)), fw,
                     [OsStat (filename fw), OsReadFile (filename fw)])
                | Inr info \<Rightarrow>
                    (let callbackJson = fst (notifyDetected w info);
                         currentHeight = fst (fst (checkHeight w fw));
                         evs = [OsStat (filename fw), OsReadFile (filename fw)]
                               @ snd (notifyDetected w info) @ snd (checkHeight w fw)
                     in if currentHeight \<noteq> 0 \<and> currentHeight < Height info
                        then (Returned False, fw, evs)
                        else
                          (let fw1 = (if \<not> initialized fw
                                      then fw\<lparr>initialized := True, currentInfo := info,
                                              lastModTime := ModTime stat\<rparr>
                                      else fw)
                           in if \<not> initialized fw
                                 \<and> \<not> EqualFold w (Name currentUpgrade) (Name (currentInfo fw1))
                              then (Returned True, fw1\<lparr>needsUpdate := True\<rparr>,
                                    evs @ upgradeHeightReachedCallback w callbackJson)
                              else if Height info > Height (currentInfo fw1)
                              then (Returned True,
                                    fw1\<lparr>currentInfo := info, lastModTime := ModTime stat,
                                        needsUpdate := True\<rparr>,
                                    evs @ upgradeHeightReachedCallback w callbackJson)
                              else (Returned False, fw1, evs))))))"

section \<open>The polling loop\<close>

text \<open>
  The goroutine of \<^verbatim>\<open>MonitorUpdate\<close> selects between a tick and the cancellation.
  Its input is the sequence of signals it receives, each tick with the surroundings the
  call of \<^verbatim>\<open>CheckUpdate\<close> finds. It ends by sending on \<open>done\<close>, by the cancellation,
  or with the panic of \<^verbatim>\<open>CheckUpdate\<close>; \<open>Polling\<close> is the loop still waiting when
  the signals are used up.
\<close>

datatype signal = Tick world | Cancel

datatype monitorResult = Done | Cancelled | Aborted error | Polling

fun monitorLoop ::
  "fileWatcher \<Rightarrow> Plan \<Rightarrow> signal list \<Rightarrow> monitorResult \<times> fileWatcher \<times> event list" where
  "monitorLoop fw currentUpgrade [] = (Polling, fw, [])"
| "monitorLoop fw currentUpgrade (Cancel # sigs) = (Cancelled, fw, [])"
| "monitorLoop fw currentUpgrade (Tick w # sigs) =
     (case CheckUpdate w fw currentUpgrade of
        (Returned True, fw', evs) \<Rightarrow> (Done, fw', evs)
      | (Returned False, fw', evs) \<Rightarrow>
          (case monitorLoop fw' currentUpgrade sigs of
             (r, fw'', evs') \<Rightarrow> (r, fw'', evs @ evs'))
      | (Panicked err, fw', evs) \<Rightarrow> (Aborted err, fw', evs))"

definition MonitorUpdate ::
  "fileWatcher \<Rightarrow> Plan \<Rightarrow> signal list \<Rightarrow> monitorResult \<times> fileWatcher \<times> event list" where
  "MonitorUpdate fw currentUpgrade sigs =
     monitorLoop (fw\<lparr>needsUpdate := False\<rparr>) currentUpgrade sigs"

text \<open>
  The height \<^verbatim>\<open>checkHeight\<close> returns, the test of line 163 on it, and the calls of
  a run that gets as far as that test.
\<close>

abbreviation probedHeight :: "world \<Rightarrow> fileWatcher \<Rightarrow> int" where
  "probedHeight w fw \<equiv> fst (fst (checkHeight w fw))"

abbreviation tooEarly :: "world \<Rightarrow> fileWatcher \<Rightarrow> Plan \<Rightarrow> bool" where
  "tooEarly w fw info \<equiv> probedHeight w fw \<noteq> 0 \<and> probedHeight w fw < Height info"

abbreviation pollEvents :: "world \<Rightarrow> fileWatcher \<Rightarrow> Plan \<Rightarrow> event list" where
  "pollEvents w fw info \<equiv>
     [OsStat (filename fw), OsReadFile (filename fw)]
     @ snd (notifyDetected w info) @ snd (checkHeight w fw)"

section \<open>Concrete runs\<close>

text \<open>
  A watcher of \<^verbatim>\<open>/node/data/upgrade-info.json\<close> and surroundings for it: the file
  with its modification time (or no file), its bytes, what they decode to, and what the
  status command reports (or the error of running it). Of the strings that are not ASCII,
  these surroundings know one name, \<open>KelvinName\<close>: the Kelvin sign U+212A, in UTF-8,
  before \<^verbatim>\<open>elvin\<close>. \<^verbatim>\<open>unicode.SimpleFold\<close> takes \<^verbatim>\<open>k\<close> to the Kelvin sign, so
  Go finds that name and \<^verbatim>\<open>kelvin\<close> equal under folding.
\<close>

definition KelvinName :: string where
  "KelvinName = [CHR 0xE2, CHR 0x84, CHR 0xAA] @ ''elvin''"

definition scenario :: "Time option \<Rightarrow> string \<Rightarrow> error + Plan \<Rightarrow> error + int \<Rightarrow> world" where
  "scenario mt bytes decoded probe =
     \<lparr>osArgs0 = ''/usr/bin/cosmovisor'',
      osStat = (\<lambda>path. if path = ''/node/data'' then Inr \<lparr>ModTime = 1, IsDir = True\<rparr>
                        else if path = ''/node/data/upgrade-info.json''
                        then (case mt of
                                None \<Rightarrow> Inl (External ''no such file or directory'')
                              | Some t \<Rightarrow> Inr \<lparr>ModTime = t, IsDir = False\<rparr>)
                        else Inl (External ''no such file or directory'')),
      osReadFile = (\<lambda>path. if path = ''/node/data/upgrade-info.json'' \<and> mt \<noteq> None
                            then Inr bytes
                            else Inl (External ''no such file or directory'')),
      osGetenv = (\<lambda>v. if v = ''CALLBACK_API'' then ''http://deploy''
                       else if v = ''NODE_ID'' then ''n1''
                       else if v = ''DEPLOYMENT_ID'' then ''d1'' else []),
      filepathAbs = Inr,
      filepathDir = (\<lambda>path. ''/node/data''),
      execOutput = (\<lambda>bin args. case probe of Inl err \<Rightarrow> Inl err | Inr h \<Rightarrow> Inr ''{status}''),
      jsonUnmarshalPlan = (\<lambda>b. decoded),
      jsonUnmarshalStatus = (\<lambda>b. Inr ''height''),
      jsonMarshal = (\<lambda>cb. Inr ''{callback}''),
      strconvParseInt = (\<lambda>s. case probe of Inl err \<Rightarrow> (0, Some err) | Inr h \<Rightarrow> (h, None)),
      planParseInfo = (\<lambda>s. Inr [s]),
      equalFoldUnicode = (\<lambda>s t. s = t \<or> (s, t) \<in> {(KelvinName, ''kelvin''), (''kelvin'', KelvinName)}),
      toLowerUnicode = (\<lambda>s. case s of [] \<Rightarrow> (CHR ''?'', []) | c # cs \<Rightarrow> (c, cs))\<rparr>"

definition watching :: "Plan \<Rightarrow> Time \<Rightarrow> bool \<Rightarrow> bool \<Rightarrow> fileWatcher" where
  "watching p t ready init =
     \<lparr>filename = ''/node/data/upgrade-info.json'', interval = 300, currentBin = ''/node/bin/appd'',
      currentInfo = p, lastModTime = t, needsUpdate = ready, initialized = init,
      disableRecase = True\<rparr>"

definition upgradeA :: Plan where
  "upgradeA = \<lparr>Name = ''Upgrade-A'', Height = 100,
     Info = ''https://github.com/org/repo/releases/download/v1.2.3/bin''\<rparr>"

definition upgradeB :: Plan where
  "upgradeB = \<lparr>Name = ''Upgrade-B'', Height = 200, Info = []\<rparr>"

definition noPlan :: Plan where
  "noPlan = \<lparr>Name = [], Height = 0, Info = []\<rparr>"

section \<open>Properties of the extractor\<close>

lemma scanSegments_no_github:
  "\<forall>s\<in>set segs. \<not> EqualFold w s ''github.com'' \<Longrightarrow> githubIdx < 0 \<Longrightarrow>
   fst (snd (scanSegments w segs idx githubIdx repo)) < 0"
  by (induction segs arbitrary: idx repo) (simp_all add: Let_def)

lemma scanSegments_stops:
  "\<forall>s\<in>set pre. \<not> matchVersion s \<Longrightarrow> matchVersion m \<Longrightarrow>
   scanSegments w (pre @ m # post) idx githubIdx repo = scanSegments w (pre @ [m]) idx githubIdx repo"
  by (induction pre arbitrary: idx githubIdx repo) (simp_all add: Let_def)

lemma scanSegments_version:
  "\<forall>s\<in>set pre. \<not> matchVersion s \<Longrightarrow> matchVersion m \<Longrightarrow>
   snd (snd (scanSegments w (pre @ m # post) idx githubIdx repo)) = m"
  by (induction pre arbitrary: idx githubIdx repo) (simp_all add: Let_def)

lemma scanSegments_no_version:
  "\<forall>s\<in>set segs. \<not> matchVersion s \<Longrightarrow>
   snd (snd (scanSegments w segs idx githubIdx repo)) = []"
  by (induction segs arbitrary: idx githubIdx repo) (simp_all add: Let_def)

lemma digits1_run:
  "d \<noteq> [] \<Longrightarrow> \<forall>c\<in>set d. isDigit c \<Longrightarrow> digits1 (d @ CHR ''.'' # x) = Some (CHR ''.'' # x)"
  by (cases d) (simp_all add: digits1_def isDigit_def)

lemma digits1_some:
  "d \<noteq> [] \<Longrightarrow> \<forall>c\<in>set d. isDigit c \<Longrightarrow> digits1 (d @ x) \<noteq> None"
  by (cases d) (simp_all add: digits1_def)

lemma digits1_split:
  assumes "digits1 s = Some r"
  shows "\<exists>d. d \<noteq> [] \<and> (\<forall>c\<in>set d. isDigit c) \<and> s = d @ r"
proof (cases s)
  case Nil
  with assms show ?thesis by (simp add: digits1_def)
next
  case (Cons c t)
  with assms have c: "isDigit c" and r: "r = dropWhile isDigit t"
    by (auto simp: digits1_def split: if_splits)
  have "s = (c # takeWhile isDigit t) @ r"
    using Cons r by simp
  moreover have "\<forall>x\<in>set (c # takeWhile isDigit t). isDigit x"
    using c by (auto dest: set_takeWhileD)
  ultimately show ?thesis by blast
qed

lemma dot1_split: "dot1 s = Some r \<Longrightarrow> s = CHR ''.'' # r"
  by (cases s) (auto simp: dot1_def split: if_splits)

lemma matchVersion_iff:
  "matchVersion str \<longleftrightarrow>
     (\<exists>c d1 d2 d3 rest.
        str = c # d1 @ ''.'' @ d2 @ ''.'' @ d3 @ rest \<and> (c = CHR ''v'' \<or> c = CHR ''V'') \<and>
        d1 \<noteq> [] \<and> d2 \<noteq> [] \<and> d3 \<noteq> [] \<and> (\<forall>x\<in>set (d1 @ d2 @ d3). isDigit x))"
  (is "?L \<longleftrightarrow> ?R")
proof
  assume ?L
  then obtain c r where str: "str = c # r" and c: "c = CHR ''v'' \<or> c = CHR ''V''"
    by (cases str) (auto simp: matchVersion_def)
  from \<open>?L\<close> str obtain r1 r2 r3 r4 where
    1: "digits1 r = Some r1" and 2: "dot1 r1 = Some r2" and
    3: "digits1 r2 = Some r3" and 4: "dot1 r3 = Some r4" and 5: "digits1 r4 \<noteq> None"
    by (auto simp: matchVersion_def split: option.splits Option.bind_splits)
  from 5 obtain r5 where 5: "digits1 r4 = Some r5" by auto
  from digits1_split[OF 1] obtain d1 where d1: "d1 \<noteq> []" "\<forall>c\<in>set d1. isDigit c" "r = d1 @ r1" by blast
  from digits1_split[OF 3] obtain d2 where d2: "d2 \<noteq> []" "\<forall>c\<in>set d2. isDigit c" "r2 = d2 @ r3" by blast
  from digits1_split[OF 5] obtain d3 where d3: "d3 \<noteq> []" "\<forall>c\<in>set d3. isDigit c" "r4 = d3 @ r5" by blast
  have "str = c # d1 @ ''.'' @ d2 @ ''.'' @ d3 @ r5"
    using str d1(3) d2(3) d3(3) dot1_split[OF 2] dot1_split[OF 4] by simp
  with c d1 d2 d3 show ?R by (intro exI[of _ c] exI[of _ d1] exI[of _ d2] exI[of _ d3] exI[of _ r5]) auto
next
  assume ?R
  then obtain c d1 d2 d3 rest where
    str: "str = c # d1 @ ''.'' @ d2 @ ''.'' @ d3 @ rest" and c: "c = CHR ''v'' \<or> c = CHR ''V''" and
    d: "d1 \<noteq> []" "d2 \<noteq> []" "d3 \<noteq> []" and
    dd: "\<forall>x\<in>set d1. isDigit x" "\<forall>x\<in>set d2. isDigit x" "\<forall>x\<in>set d3. isDigit x"
    by auto
  have 1: "digits1 (d1 @ CHR ''.'' # d2 @ CHR ''.'' # d3 @ rest) = Some (CHR ''.'' # d2 @ CHR ''.'' # d3 @ rest)"
    using d(1) dd(1) by (rule digits1_run)
  have 2: "digits1 (d2 @ CHR ''.'' # d3 @ rest) = Some (CHR ''.'' # d3 @ rest)"
    using d(2) dd(2) by (rule digits1_run)
  have 3: "digits1 (d3 @ rest) \<noteq> None"
    using d(3) dd(3) by (rule digits1_some)
  show ?L
    using c 1 2 3 by (auto simp: matchVersion_def str dot1_def)
qed

text \<open>
  C7. The URL \<^verbatim>\<open>https://github.com/org/repo/releases/download/v1.2.3/bin\<close> gives the
  repository \<^verbatim>\<open>https://github.com/org/repo\<close> and the version \<^verbatim>\<open>v1.2.3\<close>; and a
  URL none of whose segments equals \<^verbatim>\<open>github.com\<close> up to case gives the empty
  repository, whatever the version found.
\<close>

theorem extractor_github_example_and_no_github:
  "getVersionAndRepoFromUrl w ''https://github.com/org/repo/releases/download/v1.2.3/bin''
     = (''https://github.com/org/repo'', ''v1.2.3'') \<and>
   ((\<forall>seg\<in>set (Split url). \<not> EqualFold w seg ''github.com'') \<longrightarrow>
      fst (getVersionAndRepoFromUrl w url) = [])"
proof
  show "getVersionAndRepoFromUrl w ''https://github.com/org/repo/releases/download/v1.2.3/bin''
     = (''https://github.com/org/repo'', ''v1.2.3'')"
    by code_simp
next
  show "(\<forall>seg\<in>set (Split url). \<not> EqualFold w seg ''github.com'') \<longrightarrow>
      fst (getVersionAndRepoFromUrl w url) = []"
  proof
    assume a: "\<forall>seg\<in>set (Split url). \<not> EqualFold w seg ''github.com''"
    have "fst (snd (scanSegments w (Split url) 0 (- 1) [])) < 0"
      using a by (rule scanSegments_no_github) simp
    then show "fst (getVersionAndRepoFromUrl w url) = []"
      by (cases "scanSegments w (Split url) 0 (- 1) []") (simp add: getVersionAndRepoFromUrl_def)
  qed
qed

theorem extractor_github_example_and_no_github_witness:
  "getVersionAndRepoFromUrl (scenario None [] (Inr noPlan) (Inr 0)) ''https://example.com/dl/v1.2.3/bin''
     = ([], ''v1.2.3'')"
proof -
  let ?w = "scenario None [] (Inr noPlan) (Inr 0)"
  have "\<forall>seg\<in>set (Split ''https://example.com/dl/v1.2.3/bin''). \<not> EqualFold ?w seg ''github.com''"
    by code_simp
  with extractor_github_example_and_no_github
         [where w = ?w and url = "''https://example.com/dl/v1.2.3/bin''"]
  have "fst (getVersionAndRepoFromUrl ?w ''https://example.com/dl/v1.2.3/bin'') = []" by blast
  moreover have "snd (getVersionAndRepoFromUrl ?w ''https://example.com/dl/v1.2.3/bin'') = ''v1.2.3''"
    by code_simp
  ultimately show ?thesis by (simp add: prod_eq_iff)
qed

section \<open>Properties of the decision routine\<close>

lemmas scenario_simps =
  scenario_def watching_def upgradeA_def upgradeB_def noPlan_def parseUpgradeInfoFile_def
  ValidateBasic_def checkHeight_def HasSuffix_def After_def

lemma CheckUpdate_tooEarly:
  assumes "\<not> needsUpdate fw"
    and "osStat w (filename fw) = Inr stat" and "After (ModTime stat) (lastModTime fw)"
    and "parseUpgradeInfoFile w (filename fw) (disableRecase fw) = Inr info"
    and "tooEarly w fw info"
  shows "CheckUpdate w fw cu = (Returned False, fw, pollEvents w fw info)"
  using assms by (simp add: CheckUpdate_def Let_def)

lemma CheckUpdate_first:
  assumes "\<not> needsUpdate fw"
    and "osStat w (filename fw) = Inr stat" and "After (ModTime stat) (lastModTime fw)"
    and "parseUpgradeInfoFile w (filename fw) (disableRecase fw) = Inr info"
    and "\<not> tooEarly w fw info"
    and "\<not> initialized fw"
  shows "CheckUpdate w fw cu =
    (if \<not> EqualFold w (Name cu) (Name info)
     then (Returned True,
           fw\<lparr>initialized := True, currentInfo := info, lastModTime := ModTime stat,
              needsUpdate := True\<rparr>,
           pollEvents w fw info @ upgradeHeightReachedCallback w (fst (notifyDetected w info)))
     else (Returned False,
           fw\<lparr>initialized := True, currentInfo := info, lastModTime := ModTime stat\<rparr>,
           pollEvents w fw info))"
  using assms by (auto simp: CheckUpdate_def Let_def)

lemma CheckUpdate_later:
  assumes "\<not> needsUpdate fw"
    and "osStat w (filename fw) = Inr stat" and "After (ModTime stat) (lastModTime fw)"
    and "parseUpgradeInfoFile w (filename fw) (disableRecase fw) = Inr info"
    and "\<not> tooEarly w fw info"
    and "initialized fw"
  shows "CheckUpdate w fw cu =
    (if Height (currentInfo fw) < Height info
     then (Returned True,
           fw\<lparr>currentInfo := info, lastModTime := ModTime stat, needsUpdate := True\<rparr>,
           pollEvents w fw info @ upgradeHeightReachedCallback w (fst (notifyDetected w info)))
     else (Returned False, fw, pollEvents w fw info))"
  using assms by (auto simp: CheckUpdate_def Let_def)

lemma ToLower_not_empty: "s \<noteq> [] \<Longrightarrow> ToLower w s \<noteq> []"
  by (simp add: ToLower_def split: prod.splits)

lemma EqualFold_unicode:
  "\<not> isASCII sr \<or> \<not> isASCII tr \<Longrightarrow>
   EqualFold w (sr # s) (tr # t) = equalFoldUnicode w (sr # s) (tr # t)"
  by auto

lemma parseUpgradeInfoFile_valid:
  assumes "parseUpgradeInfoFile w fname norecase = Inr info"
  shows "Name info \<noteq> [] \<and> 0 < Height info"
  using assms
  by (auto simp: parseUpgradeInfoFile_def ValidateBasic_def ToLower_not_empty
           split: sum.splits if_splits option.splits)

lemma notifyDetected_sent:
  assumes "\<forall>cb. \<exists>js. jsonMarshal w cb = Inr js"
  shows "set (upgradeDetectedCallback w (fst (notifyDetected w info))) \<subseteq> set (snd (notifyDetected w info))"
proof -
  obtain repo version evs where e:
    "(case planParseInfo w (Info info) of Inl err \<Rightarrow> (([], []), []) | Inr binaries \<Rightarrow> extractLoop w binaries [] [])
       = ((repo, version), evs)"
    by (metis prod.exhaust)
  from assms obtain js where
    "jsonMarshal w \<lparr>cbName = Name info, cbVersion = version, cbRepo = repo,
                           cbInfo = Info info, cbHeight = Height info\<rparr> = Inr js" by blast
  with e show ?thesis
    by (auto simp: notifyDetected_def Let_def)
qed

text \<open>
  C1. An initialized watcher that needs no update yet finds the file with a modification
  time after \<open>lastModTime\<close>, holding a valid plan, and the height test does not stop
  it. If the plan is higher than the accepted one, \<^verbatim>\<open>CheckUpdate\<close> adopts it
  (\<open>currentInfo\<close> and \<open>lastModTime\<close> are updated), sets \<open>needsUpdate\<close>, sends the
  "height reached" notice after the calls of the poll, and returns true. If the plan is
  not higher, it returns false and \<open>currentInfo\<close> is as before.
\<close>

theorem CheckUpdate_adopts_higher_plan:
  assumes "initialized fw" and "\<not> needsUpdate fw"
    and "osStat w (filename fw) = Inr stat" and "After (ModTime stat) (lastModTime fw)"
    and "parseUpgradeInfoFile w (filename fw) (disableRecase fw) = Inr info"
    and "\<not> tooEarly w fw info"
  shows "(Height (currentInfo fw) < Height info \<longrightarrow>
            CheckUpdate w fw currentUpgrade =
              (Returned True,
               fw\<lparr>currentInfo := info, lastModTime := ModTime stat, needsUpdate := True\<rparr>,
               pollEvents w fw info
               @ upgradeHeightReachedCallback w (fst (notifyDetected w info))))
       \<and> (Height info \<le> Height (currentInfo fw) \<longrightarrow>
            fst (CheckUpdate w fw currentUpgrade) = Returned False
            \<and> currentInfo (fst (snd (CheckUpdate w fw currentUpgrade))) = currentInfo fw)"
  using CheckUpdate_later [OF assms(2-6) assms(1), of currentUpgrade] by simp

theorem CheckUpdate_adopts_higher_plan_witness:
  "CheckUpdate (scenario (Some 5) ''{plan}'' (Inr upgradeB) (Inr 250)) (watching upgradeA 3 False True) upgradeA
     = (Returned True, watching upgradeB 5 True True,
        [OsStat ''/node/data/upgrade-info.json'', OsReadFile ''/node/data/upgrade-info.json'',
         PlanParseInfo [],
         GetVersionAndRepo [],
         Println ''upgrade callback to http://deploy/internal/cosmos/n1/d1/cosmos_notify_upgrade'',
         HttpPost ''http://deploy/internal/cosmos/n1/d1/cosmos_notify_upgrade'' ''application/json'' ''{callback}'',
         ExecCommand ''/node/bin/appd'' [''status''],
         Println ''upgrade height callback to http://deploy/internal/cosmos/n1/d1/cosmos_upgrade_height_reached'',
         HttpPost ''http://deploy/internal/cosmos/n1/d1/cosmos_upgrade_height_reached'' ''application/json'' ''{callback}''])
   \<and> fst (CheckUpdate (scenario (Some 5) ''{plan}'' (Inr upgradeA) (Inr 250)) (watching upgradeA 3 False True) upgradeA)
       = Returned False
   \<and> currentInfo (fst (snd (CheckUpdate (scenario (Some 5) ''{plan}'' (Inr upgradeA) (Inr 250)) (watching upgradeA 3 False True) upgradeA)))
       = upgradeA"
proof -
  let ?fw = "watching upgradeA 3 False True"
  let ?st = "\<lparr>ModTime = 5, IsDir = False\<rparr>"
  let ?wB = "scenario (Some 5) ''{plan}'' (Inr upgradeB) (Inr 250)"
  let ?wA = "scenario (Some 5) ''{plan}'' (Inr upgradeA) (Inr 250)"
  have fw: "initialized ?fw" "\<not> needsUpdate ?fw" "After (ModTime ?st) (lastModTime ?fw)"
    by (simp_all add: watching_def After_def)
  have B: "osStat ?wB (filename ?fw) = Inr ?st"
    "parseUpgradeInfoFile ?wB (filename ?fw) (disableRecase ?fw) = Inr upgradeB"
    "\<not> tooEarly ?wB ?fw upgradeB" "Height (currentInfo ?fw) < Height upgradeB"
    by (simp_all add: scenario_simps)
  have A: "osStat ?wA (filename ?fw) = Inr ?st"
    "parseUpgradeInfoFile ?wA (filename ?fw) (disableRecase ?fw) = Inr upgradeA"
    "\<not> tooEarly ?wA ?fw upgradeA" "Height upgradeA \<le> Height (currentInfo ?fw)"
    by (simp_all add: scenario_simps)
  have evs: "pollEvents ?wB ?fw upgradeB @ upgradeHeightReachedCallback ?wB (fst (notifyDetected ?wB upgradeB))
    = [OsStat ''/node/data/upgrade-info.json'', OsReadFile ''/node/data/upgrade-info.json'',
         PlanParseInfo [],
         GetVersionAndRepo [],
         Println ''upgrade callback to http://deploy/internal/cosmos/n1/d1/cosmos_notify_upgrade'',
         HttpPost ''http://deploy/internal/cosmos/n1/d1/cosmos_notify_upgrade'' ''application/json'' ''{callback}'',
         ExecCommand ''/node/bin/appd'' [''status''],
         Println ''upgrade height callback to http://deploy/internal/cosmos/n1/d1/cosmos_upgrade_height_reached'',
         HttpPost ''http://deploy/internal/cosmos/n1/d1/cosmos_upgrade_height_reached'' ''application/json'' ''{callback}'']"
    by (simp add: scenario_simps notifyDetected_def upgradeHeightReachedCallback_def
          upgradeDetectedCallback_def getVersionAndRepoFromUrl_def matchVersion_def Let_def)
  have st: "?fw\<lparr>currentInfo := upgradeB, lastModTime := ModTime ?st, needsUpdate := True\<rparr>
      = watching upgradeB 5 True True"
    by (simp add: watching_def)
  from CheckUpdate_adopts_higher_plan [OF fw(1,2) B(1) fw(3) B(2,3), of upgradeA] B(4) evs st
  have "CheckUpdate ?wB ?fw upgradeA = (Returned True, watching upgradeB 5 True True,
        [OsStat ''/node/data/upgrade-info.json'', OsReadFile ''/node/data/upgrade-info.json'',
         PlanParseInfo [],
         GetVersionAndRepo [],
         Println ''upgrade callback to http://deploy/internal/cosmos/n1/d1/cosmos_notify_upgrade'',
         HttpPost ''http://deploy/internal/cosmos/n1/d1/cosmos_notify_upgrade'' ''application/json'' ''{callback}'',
         ExecCommand ''/node/bin/appd'' [''status''],
         Println ''upgrade height callback to http://deploy/internal/cosmos/n1/d1/cosmos_upgrade_height_reached'',
         HttpPost ''http://deploy/internal/cosmos/n1/d1/cosmos_upgrade_height_reached'' ''application/json'' ''{callback}''])"
    by (simp only:)
  moreover from CheckUpdate_adopts_higher_plan [OF fw(1,2) A(1) fw(3) A(2,3), of upgradeA] A(4)
  have "fst (CheckUpdate ?wA ?fw upgradeA) = Returned False
     \<and> currentInfo (fst (snd (CheckUpdate ?wA ?fw upgradeA))) = upgradeA"
    by (simp add: watching_def)
  ultimately show ?thesis by (simp only:)
qed

text \<open>
  C2. The first poll of a watcher (not initialized, needing no update) that finds the file
  with a later modification time and a valid plan, past the height test. The name of the
  plan is compared with the name of the running upgrade by \<^verbatim>\<open>strings.EqualFold\<close>.
  If they differ, \<open>needsUpdate\<close> is set, the call returns true, and after the calls of
  the poll it prints the address of the "height reached" endpoint and posts
  \<open>callbackJson\<close> to it. If they are equal, the call returns false, \<open>needsUpdate\<close>
  stays unset and nothing follows the calls of the poll.
\<close>

theorem CheckUpdate_first_poll_names:
  assumes "\<not> initialized fw" and "\<not> needsUpdate fw"
    and "osStat w (filename fw) = Inr stat" and "After (ModTime stat) (lastModTime fw)"
    and "parseUpgradeInfoFile w (filename fw) (disableRecase fw) = Inr info"
    and "\<not> tooEarly w fw info"
  shows "(\<not> EqualFold w (Name currentUpgrade) (Name info) \<longrightarrow>
            CheckUpdate w fw currentUpgrade =
              (Returned True,
               fw\<lparr>initialized := True, currentInfo := info, lastModTime := ModTime stat,
                  needsUpdate := True\<rparr>,
               pollEvents w fw info
               @ [Println (''upgrade height callback to ''
                           @ osGetenv w ''CALLBACK_API'' @ ''/internal/cosmos/''
                           @ osGetenv w ''NODE_ID'' @ ''/'' @ osGetenv w ''DEPLOYMENT_ID''
                           @ ''/cosmos_upgrade_height_reached''),
                  HttpPost (osGetenv w ''CALLBACK_API'' @ ''/internal/cosmos/''
                            @ osGetenv w ''NODE_ID'' @ ''/'' @ osGetenv w ''DEPLOYMENT_ID''
                            @ ''/cosmos_upgrade_height_reached'')
                           ''application/json'' (fst (notifyDetected w info))]))
       \<and> (EqualFold w (Name currentUpgrade) (Name info) \<longrightarrow>
            CheckUpdate w fw currentUpgrade =
              (Returned False,
               fw\<lparr>initialized := True, currentInfo := info, lastModTime := ModTime stat\<rparr>,
               pollEvents w fw info)
            \<and> fst (CheckUpdate w fw currentUpgrade) = Returned False
            \<and> \<not> needsUpdate (fst (snd (CheckUpdate w fw currentUpgrade))))"
  using CheckUpdate_first [OF assms(2-6) assms(1), of currentUpgrade] assms(2)
  by (simp add: upgradeHeightReachedCallback_def Let_def)

theorem CheckUpdate_first_poll_names_witness:
  "CheckUpdate (scenario (Some 5) ''{plan}'' (Inr upgradeA) (Inr 0)) (watching noPlan 0 False False) upgradeB
     = (Returned True, watching upgradeA 5 True True,
        [OsStat ''/node/data/upgrade-info.json'', OsReadFile ''/node/data/upgrade-info.json'',
         PlanParseInfo ''https://github.com/org/repo/releases/download/v1.2.3/bin'',
         GetVersionAndRepo ''https://github.com/org/repo/releases/download/v1.2.3/bin'',
         Println ''upgrade callback to http://deploy/internal/cosmos/n1/d1/cosmos_notify_upgrade'',
         HttpPost ''http://deploy/internal/cosmos/n1/d1/cosmos_notify_upgrade'' ''application/json'' ''{callback}'',
         ExecCommand ''/node/bin/appd'' [''status''],
         Println ''upgrade height callback to http://deploy/internal/cosmos/n1/d1/cosmos_upgrade_height_reached'',
         HttpPost ''http://deploy/internal/cosmos/n1/d1/cosmos_upgrade_height_reached'' ''application/json'' ''{callback}''])
   \<and> CheckUpdate (scenario (Some 5) ''{plan}'' (Inr upgradeA) (Inr 0)) (watching noPlan 0 False False)
         \<lparr>Name = ''UPGRADE-a'', Height = 100, Info = []\<rparr>
     = (Returned False, watching upgradeA 5 False True,
        [OsStat ''/node/data/upgrade-info.json'', OsReadFile ''/node/data/upgrade-info.json'',
         PlanParseInfo ''https://github.com/org/repo/releases/download/v1.2.3/bin'',
         GetVersionAndRepo ''https://github.com/org/repo/releases/download/v1.2.3/bin'',
         Println ''upgrade callback to http://deploy/internal/cosmos/n1/d1/cosmos_notify_upgrade'',
         HttpPost ''http://deploy/internal/cosmos/n1/d1/cosmos_notify_upgrade'' ''application/json'' ''{callback}'',
         ExecCommand ''/node/bin/appd'' [''status'']])
   \<and> fst (CheckUpdate (scenario (Some 5) ''{plan}'' (Inr \<lparr>Name = ''kelvin'', Height = 100, Info = []\<rparr>) (Inr 0))
             (watching noPlan 0 False False) \<lparr>Name = KelvinName, Height = 100, Info = []\<rparr>)
     = Returned False"
proof -
  let ?fw = "watching noPlan 0 False False"
  let ?st = "\<lparr>ModTime = 5, IsDir = False\<rparr>"
  let ?w = "scenario (Some 5) ''{plan}'' (Inr upgradeA) (Inr 0)"
  let ?same = "\<lparr>Name = ''UPGRADE-a'', Height = 100, Info = []\<rparr>"
  let ?k = "\<lparr>Name = ''kelvin'', Height = 100, Info = []\<rparr>"
  let ?K = "\<lparr>Name = KelvinName, Height = 100, Info = []\<rparr>"
  let ?v = "scenario (Some 5) ''{plan}'' (Inr ?k) (Inr 0)"
  let ?poll = "[OsStat ''/node/data/upgrade-info.json'', OsReadFile ''/node/data/upgrade-info.json'',
         PlanParseInfo ''https://github.com/org/repo/releases/download/v1.2.3/bin'',
         GetVersionAndRepo ''https://github.com/org/repo/releases/download/v1.2.3/bin'',
         Println ''upgrade callback to http://deploy/internal/cosmos/n1/d1/cosmos_notify_upgrade'',
         HttpPost ''http://deploy/internal/cosmos/n1/d1/cosmos_notify_upgrade'' ''application/json'' ''{callback}'',
         ExecCommand ''/node/bin/appd'' [''status'']]"
  have fw: "\<not> initialized ?fw" "\<not> needsUpdate ?fw" "After (ModTime ?st) (lastModTime ?fw)"
    by (simp_all add: watching_def After_def)
  have w: "osStat ?w (filename ?fw) = Inr ?st"
    "parseUpgradeInfoFile ?w (filename ?fw) (disableRecase ?fw) = Inr upgradeA"
    "\<not> tooEarly ?w ?fw upgradeA"
    by (simp_all add: scenario_simps)
  have v: "osStat ?v (filename ?fw) = Inr ?st"
    "parseUpgradeInfoFile ?v (filename ?fw) (disableRecase ?fw) = Inr ?k"
    "\<not> tooEarly ?v ?fw ?k"
    by (simp_all add: scenario_simps)
  have differ: "\<not> EqualFold ?w (Name upgradeB) (Name upgradeA)"
    by code_simp
  have same: "EqualFold ?w (Name ?same) (Name upgradeA)"
    by code_simp
  have kelvin: "EqualFold ?v (Name ?K) (Name ?k)"
    by code_simp
  have poll: "pollEvents ?w ?fw upgradeA = ?poll"
    by code_simp
  have js: "fst (notifyDetected ?w upgradeA) = ''{callback}''"
    by code_simp
  have env: "osGetenv ?w ''CALLBACK_API'' = ''http://deploy''" "osGetenv ?w ''NODE_ID'' = ''n1''"
    "osGetenv ?w ''DEPLOYMENT_ID'' = ''d1''"
    by (simp_all add: scenario_def)
  note ready = CheckUpdate_first_poll_names
    [OF fw(1,2) w(1) fw(3) w(2,3), of upgradeB, THEN conjunct1, THEN mp, OF differ]
  note idle = CheckUpdate_first_poll_names
    [OF fw(1,2) w(1) fw(3) w(2,3), of ?same, THEN conjunct2, THEN mp, OF same, THEN conjunct1]
  note folded = CheckUpdate_first_poll_names
    [OF fw(1,2) v(1) fw(3) v(2,3), of ?K, THEN conjunct2, THEN mp, OF kelvin, THEN conjunct2,
     THEN conjunct1]
  have "CheckUpdate ?w ?fw upgradeB
     = (Returned True, watching upgradeA 5 True True,
        ?poll @ [Println ''upgrade height callback to http://deploy/internal/cosmos/n1/d1/cosmos_upgrade_height_reached'',
         HttpPost ''http://deploy/internal/cosmos/n1/d1/cosmos_upgrade_height_reached'' ''application/json'' ''{callback}''])"
    unfolding ready poll js env by (simp add: watching_def)
  moreover have "CheckUpdate ?w ?fw ?same = (Returned False, watching upgradeA 5 False True, ?poll)"
    unfolding idle poll by (simp add: watching_def)
  ultimately show ?thesis using folded by simp
qed

text \<open>
  C3. A watcher with \<open>needsUpdate\<close> set returns true at once: no call is made (no stat,
  no read of the file, no extraction, no probe, no callback) and the watcher is left as
  it is, so a further call, in whatever surroundings, gives the same again.
\<close>

theorem CheckUpdate_ready_short_circuit:
  assumes "needsUpdate fw"
  shows "CheckUpdate w fw currentUpgrade = (Returned True, fw, [])
       \<and> CheckUpdate w' (fst (snd (CheckUpdate w fw currentUpgrade))) currentUpgrade'
           = CheckUpdate w fw currentUpgrade"
  using assms by (simp add: CheckUpdate_def)

theorem CheckUpdate_ready_short_circuit_witness:
  "CheckUpdate (scenario (Some 5) ''{plan}'' (Inr upgradeB) (Inr 250)) (watching upgradeA 3 True True) upgradeA
     = (Returned True, watching upgradeA 3 True True, [])"
proof -
  have "needsUpdate (watching upgradeA 3 True True)"
    by (simp add: watching_def)
  from CheckUpdate_ready_short_circuit [OF this] show ?thesis by (simp only:)
qed

lemma monitorLoop_ready:
  "needsUpdate fw \<Longrightarrow> needsUpdate (fst (snd (monitorLoop fw currentUpgrade sigs)))"
proof (cases sigs)
  case Nil
  then show "needsUpdate fw \<Longrightarrow> ?thesis" by simp
next
  case (Cons s rest)
  then show "needsUpdate fw \<Longrightarrow> ?thesis"
    by (cases s) (simp_all add: CheckUpdate_def)
qed

text \<open>
  C4, as stated, fails: \<^verbatim>\<open>MonitorUpdate\<close> assigns \<open>needsUpdate = false\<close> before it
  starts the loop. A watcher with \<open>needsUpdate\<close> set that is armed again, with the file
  unchanged since the plan was adopted, has \<open>needsUpdate\<close> unset after the first tick,
  and that tick does not report ready.
\<close>

theorem MonitorUpdate_resets_needsUpdate_counterexample:
  "needsUpdate (watching upgradeA 5 True True)
   \<and> MonitorUpdate (watching upgradeA 5 True True) upgradeA
        [Tick (scenario (Some 5) ''{plan}'' (Inr upgradeA) (Inr 250))]
      = (Polling, watching upgradeA 5 False True, [OsStat ''/node/data/upgrade-info.json''])"
  by (simp add: MonitorUpdate_def CheckUpdate_def scenario_simps)

text \<open>
  C4, amended. \<open>needsUpdate\<close> is sticky under \<^verbatim>\<open>CheckUpdate\<close> and within one run of
  the polling loop: once it is set, neither unsets it. Arming the watcher with
  \<^verbatim>\<open>MonitorUpdate\<close> unsets it, so the first tick after arming reports ready exactly
  when \<^verbatim>\<open>CheckUpdate\<close>, run on the watcher with \<open>needsUpdate\<close> unset, returns true.
\<close>

theorem needsUpdate_sticky_until_armed:
  "(needsUpdate fw \<longrightarrow>
      needsUpdate (fst (snd (CheckUpdate w fw currentUpgrade)))
      \<and> needsUpdate (fst (snd (monitorLoop fw currentUpgrade sigs))))
   \<and> MonitorUpdate fw currentUpgrade [] = (Polling, fw\<lparr>needsUpdate := False\<rparr>, [])
   \<and> (fst (MonitorUpdate fw currentUpgrade [Tick w]) = Done
        \<longleftrightarrow> fst (CheckUpdate w (fw\<lparr>needsUpdate := False\<rparr>) currentUpgrade) = Returned True)"
proof (intro conjI impI)
  assume "needsUpdate fw"
  then show "needsUpdate (fst (snd (CheckUpdate w fw currentUpgrade)))"
    by (simp add: CheckUpdate_def)
next
  assume "needsUpdate fw"
  then show "needsUpdate (fst (snd (monitorLoop fw currentUpgrade sigs)))"
    by (rule monitorLoop_ready)
next
  show "MonitorUpdate fw currentUpgrade [] = (Polling, fw\<lparr>needsUpdate := False\<rparr>, [])"
    by (simp add: MonitorUpdate_def)
next
  obtain r fw' evs where c: "CheckUpdate w (fw\<lparr>needsUpdate := False\<rparr>) currentUpgrade = (r, fw', evs)"
    by (rule prod_cases3)
  show "fst (MonitorUpdate fw currentUpgrade [Tick w]) = Done
        \<longleftrightarrow> fst (CheckUpdate w (fw\<lparr>needsUpdate := False\<rparr>) currentUpgrade) = Returned True"
  proof (cases r)
    case (Returned b)
    with c show ?thesis
      by (cases b) (simp_all add: MonitorUpdate_def)
  next
    case (Panicked err)
    with c show ?thesis by (simp add: MonitorUpdate_def)
  qed
qed


theorem needsUpdate_sticky_until_armed_witness:
  "needsUpdate (fst (snd (CheckUpdate (scenario (Some 7) ''{plan}'' (Inr upgradeB) (Inr 250))
                            (watching upgradeA 5 True True) upgradeA)))
   \<and> needsUpdate (fst (snd (monitorLoop (watching upgradeA 5 True True) upgradeA
                              [Tick (scenario (Some 7) ''{plan}'' (Inr upgradeB) (Inr 250)), Cancel])))
   \<and> MonitorUpdate (watching upgradeA 5 True True) upgradeA []
       = (Polling, watching upgradeA 5 False True, [])"
proof -
  have "needsUpdate (watching upgradeA 5 True True)"
    by (simp add: watching_def)
  moreover have "(watching upgradeA 5 True True)\<lparr>needsUpdate := False\<rparr> = watching upgradeA 5 False True"
    by (simp add: watching_def)
  ultimately show ?thesis
    using needsUpdate_sticky_until_armed [of "watching upgradeA 5 True True"
                 "scenario (Some 7) ''{plan}'' (Inr upgradeB) (Inr 250)" upgradeA
                 "[Tick (scenario (Some 7) ''{plan}'' (Inr upgradeB) (Inr 250)), Cancel]"]
    by simp
qed

lemma checkHeight_unknown:
  assumes "HasSuffix (osArgs0 w) ''.test''
         \<or> (\<exists>err. execOutput w (currentBin fw) [''status''] = Inl err)
         \<or> (\<exists>out err. execOutput w (currentBin fw) [''status''] = Inr out
                        \<and> jsonUnmarshalStatus w out = Inl err)
         \<or> (\<exists>out. execOutput w (currentBin fw) [''status''] = Inr out
                    \<and> jsonUnmarshalStatus w out = Inr [])"
  shows "probedHeight w fw = 0"
  using assms by (auto simp: checkHeight_def)

text \<open>
  C5. The height test. For a watcher that needs no update yet and a file that decodes to
  a valid plan: when the probe gives a height above 0 and below the height of the plan,
  \<^verbatim>\<open>CheckUpdate\<close> returns false and leaves the watcher as it is, whatever the
  modification time of the file (and whether the file is there). When the probe gives 0
  or fails (the status command fails, its output is not JSON, the height field is empty),
  the height is 0 and does not stop the plan: with a later modification time the call
  returns what the comparison of plans alone decides.
\<close>

theorem CheckUpdate_height_gate:
  assumes "\<not> needsUpdate fw"
    and "parseUpgradeInfoFile w (filename fw) (disableRecase fw) = Inr info"
  shows "(0 < probedHeight w fw \<and> probedHeight w fw < Height info \<longrightarrow>
            fst (CheckUpdate w fw currentUpgrade) = Returned False
            \<and> fst (snd (CheckUpdate w fw currentUpgrade)) = fw)
       \<and> ((probedHeight w fw = 0
            \<or> (\<exists>err. execOutput w (currentBin fw) [''status''] = Inl err)
            \<or> (\<exists>out err. execOutput w (currentBin fw) [''status''] = Inr out
                           \<and> jsonUnmarshalStatus w out = Inl err)
            \<or> (\<exists>out. execOutput w (currentBin fw) [''status''] = Inr out
                       \<and> jsonUnmarshalStatus w out = Inr []))
           \<and> osStat w (filename fw) = Inr stat \<and> After (ModTime stat) (lastModTime fw) \<longrightarrow>
            probedHeight w fw = 0
            \<and> fst (CheckUpdate w fw currentUpgrade)
                = Returned (if initialized fw then Height (currentInfo fw) < Height info
                            else \<not> EqualFold w (Name currentUpgrade) (Name info)))"
proof (intro conjI impI)
  assume early: "0 < probedHeight w fw \<and> probedHeight w fw < Height info"
  show "fst (CheckUpdate w fw currentUpgrade) = Returned False"
    using assms early by (auto simp: CheckUpdate_def Let_def split: sum.splits)
  show "fst (snd (CheckUpdate w fw currentUpgrade)) = fw"
    using assms early by (auto simp: CheckUpdate_def Let_def split: sum.splits)
next
  assume a: "(probedHeight w fw = 0
            \<or> (\<exists>err. execOutput w (currentBin fw) [''status''] = Inl err)
            \<or> (\<exists>out err. execOutput w (currentBin fw) [''status''] = Inr out
                           \<and> jsonUnmarshalStatus w out = Inl err)
            \<or> (\<exists>out. execOutput w (currentBin fw) [''status''] = Inr out
                       \<and> jsonUnmarshalStatus w out = Inr []))
           \<and> osStat w (filename fw) = Inr stat \<and> After (ModTime stat) (lastModTime fw)"
  then show zero: "probedHeight w fw = 0"
    using checkHeight_unknown [of w fw] by blast
  from a have st: "osStat w (filename fw) = Inr stat" "After (ModTime stat) (lastModTime fw)"
    by simp_all
  from zero have ok: "\<not> tooEarly w fw info" by simp
  show "fst (CheckUpdate w fw currentUpgrade)
                = Returned (if initialized fw then Height (currentInfo fw) < Height info
                            else \<not> EqualFold w (Name currentUpgrade) (Name info))"
  proof (cases "initialized fw")
    case True
    from CheckUpdate_later [OF assms(1) st assms(2) ok True, of currentUpgrade] True
    show ?thesis by simp
  next
    case False
    from CheckUpdate_first [OF assms(1) st assms(2) ok False, of currentUpgrade] False
    show ?thesis by simp
  qed
qed

theorem CheckUpdate_height_gate_witness:
  "fst (CheckUpdate (scenario (Some 5) ''{plan}'' (Inr upgradeA) (Inr 50)) (watching noPlan 0 False False) upgradeB)
     = Returned False
   \<and> fst (CheckUpdate (scenario (Some 5) ''{plan}'' (Inr upgradeA) (Inl (External ''exit status 1'')))
             (watching noPlan 0 False False) upgradeB)
     = Returned True"
proof -
  let ?fw = "watching noPlan 0 False False"
  let ?st = "\<lparr>ModTime = 5, IsDir = False\<rparr>"
  let ?w = "scenario (Some 5) ''{plan}'' (Inr upgradeA) (Inr 50)"
  let ?v = "scenario (Some 5) ''{plan}'' (Inr upgradeA) (Inl (External ''exit status 1''))"
  have fw: "\<not> needsUpdate ?fw" "\<not> initialized ?fw"
    by (simp_all add: watching_def)
  have w: "parseUpgradeInfoFile ?w (filename ?fw) (disableRecase ?fw) = Inr upgradeA"
    "0 < probedHeight ?w ?fw \<and> probedHeight ?w ?fw < Height upgradeA"
    by (simp_all add: scenario_simps)
  have v: "parseUpgradeInfoFile ?v (filename ?fw) (disableRecase ?fw) = Inr upgradeA"
    "execOutput ?v (currentBin ?fw) [''status''] = Inl (External ''exit status 1'')"
    "osStat ?v (filename ?fw) = Inr ?st" "After (ModTime ?st) (lastModTime ?fw)"
    by (simp_all add: scenario_simps)
  have names: "\<not> EqualFold ?v (Name upgradeB) (Name upgradeA)"
    by code_simp
  from CheckUpdate_height_gate [OF fw(1) w(1), where currentUpgrade = upgradeB] w(2)
  have "fst (CheckUpdate ?w ?fw upgradeB) = Returned False"
    by blast
  moreover from CheckUpdate_height_gate [OF fw(1) v(1), where currentUpgrade = upgradeB and stat = ?st] v(2,3,4) fw(2) names
  have "fst (CheckUpdate ?v ?fw upgradeB) = Returned True"
    by simp
  ultimately show ?thesis by (simp only:)
qed

text \<open>
  C6, as stated for every state of the watcher, fails: with \<open>needsUpdate\<close> set,
  \<^verbatim>\<open>CheckUpdate\<close> returns true before it looks at the file, so an empty file with a
  later modification time is not read and nothing panics.
\<close>

theorem CheckUpdate_invalid_file_when_ready_counterexample:
  "osStat (scenario (Some 5) [] (Inl (External ''unexpected end of JSON input'')) (Inr 250))
          (filename (watching upgradeA 3 True True))
     = Inr \<lparr>ModTime = 5, IsDir = False\<rparr>
   \<and> After 5 (lastModTime (watching upgradeA 3 True True))
   \<and> parseUpgradeInfoFile (scenario (Some 5) [] (Inl (External ''unexpected end of JSON input'')) (Inr 250))
        (filename (watching upgradeA 3 True True)) (disableRecase (watching upgradeA 3 True True))
     = Inl (New ''empty upgrade-info.json'')
   \<and> CheckUpdate (scenario (Some 5) [] (Inl (External ''unexpected end of JSON input'')) (Inr 250))
        (watching upgradeA 3 True True) upgradeA
     = (Returned True, watching upgradeA 3 True True, [])"
  by (simp add: scenario_simps CheckUpdate_def)

text \<open>
  C6, amended. For every state of the watcher with \<open>needsUpdate\<close> unset, when the file
  exists with a later modification time and \<^verbatim>\<open>parseUpgradeInfoFile\<close> fails,
  \<^verbatim>\<open>CheckUpdate\<close> panics with that error, after the stat and the read, and so does
  not return false. An empty file, bytes that do not decode, and a decoded plan with an
  empty name or a height that is not positive all make \<^verbatim>\<open>parseUpgradeInfoFile\<close> fail.
\<close>

theorem CheckUpdate_invalid_file_panics:
  assumes "\<not> needsUpdate fw"
    and "osStat w (filename fw) = Inr stat" and "After (ModTime stat) (lastModTime fw)"
  shows "(parseUpgradeInfoFile w (filename fw) (disableRecase fw) = Inl err \<longrightarrow>
            CheckUpdate w fw currentUpgrade =
              (Panicked (Errorf ''failed to parse upgrade info file: %w'' (Some err)), fw,
               [OsStat (filename fw), OsReadFile (filename fw)]))
       \<and> (osReadFile w (filename fw) = Inr f
           \<and> (f = [] \<or> (\<exists>e. jsonUnmarshalPlan w f = Inl e)
               \<or> (\<exists>p. jsonUnmarshalPlan w f = Inr p \<and> (Name p = [] \<or> Height p \<le> 0))) \<longrightarrow>
            (\<exists>e. CheckUpdate w fw currentUpgrade =
              (Panicked (Errorf ''failed to parse upgrade info file: %w'' (Some e)), fw,
               [OsStat (filename fw), OsReadFile (filename fw)])))"
proof (intro conjI impI)
  assume "parseUpgradeInfoFile w (filename fw) (disableRecase fw) = Inl err"
  with assms show "CheckUpdate w fw currentUpgrade =
              (Panicked (Errorf ''failed to parse upgrade info file: %w'' (Some err)), fw,
               [OsStat (filename fw), OsReadFile (filename fw)])"
    by (simp add: CheckUpdate_def)
next
  assume "osReadFile w (filename fw) = Inr f
           \<and> (f = [] \<or> (\<exists>e. jsonUnmarshalPlan w f = Inl e)
               \<or> (\<exists>p. jsonUnmarshalPlan w f = Inr p \<and> (Name p = [] \<or> Height p \<le> 0)))"
  then have "\<exists>e. parseUpgradeInfoFile w (filename fw) (disableRecase fw) = Inl e"
    by (auto simp: parseUpgradeInfoFile_def ValidateBasic_def)
  with assms show "\<exists>e. CheckUpdate w fw currentUpgrade =
              (Panicked (Errorf ''failed to parse upgrade info file: %w'' (Some e)), fw,
               [OsStat (filename fw), OsReadFile (filename fw)])"
    by (auto simp: CheckUpdate_def)
qed

theorem CheckUpdate_invalid_file_panics_witness:
  "CheckUpdate (scenario (Some 5) ''{plan}'' (Inr (upgradeA\<lparr>Height := 0\<rparr>)) (Inr 250))
        (watching upgradeA 3 False True) upgradeA
     = (Panicked (Errorf ''failed to parse upgrade info file: %w''
                   (Some (Errorf ''invalid upgrade-info.json content: %w, got: %v''
                            (Some (External ''height must be greater than 0''))))),
        watching upgradeA 3 False True,
        [OsStat ''/node/data/upgrade-info.json'', OsReadFile ''/node/data/upgrade-info.json''])"
proof -
  let ?fw = "watching upgradeA 3 False True"
  let ?st = "\<lparr>ModTime = 5, IsDir = False\<rparr>"
  let ?w = "scenario (Some 5) ''{plan}'' (Inr (upgradeA\<lparr>Height := 0\<rparr>)) (Inr 250)"
  have fw: "\<not> needsUpdate ?fw" "After (ModTime ?st) (lastModTime ?fw)"
    "filename ?fw = ''/node/data/upgrade-info.json''"
    by (simp_all add: watching_def After_def)
  have w: "osStat ?w (filename ?fw) = Inr ?st"
    "parseUpgradeInfoFile ?w (filename ?fw) (disableRecase ?fw)
       = Inl (Errorf ''invalid upgrade-info.json content: %w, got: %v''
                (Some (External ''height must be greater than 0'')))"
    by (simp_all add: scenario_simps)
  from CheckUpdate_invalid_file_panics [OF fw(1) w(1) fw(2), where currentUpgrade = upgradeA] w(2) fw(3)
  show ?thesis by simp
qed

text \<open>
  C8, as stated, fails: the regular expression asks for the letter \<^verbatim>\<open>v\<close> or \<^verbatim>\<open>V\<close>,
  so the segment \<^verbatim>\<open>1.2.3\<close> is not a version and the URL below has none.
\<close>

theorem extractor_version_without_v_counterexample:
  "getVersionAndRepoFromUrl (scenario None [] (Inr noPlan) (Inr 0))
     ''https://github.com/org/repo/releases/download/1.2.3/bin''
     = (''https://github.com/org/repo'', [])"
  by code_simp

text \<open>
  C8, amended. The version returned is the first segment, from the left, that matches
  "\<^verbatim>\<open>v\<close> or \<^verbatim>\<open>V\<close>, then digits, a dot, digits, a dot and digits, then anything";
  the scan stops there, so two URLs that agree up to that segment give the same result;
  a URL with no such segment has the empty version. The leading letter is required.
\<close>

theorem extractor_first_version_tag:
  "(Split url = pre @ m # post \<and> (\<forall>s\<in>set pre. \<not> matchVersion s) \<and> matchVersion m \<longrightarrow>
      snd (getVersionAndRepoFromUrl w url) = m
      \<and> (\<forall>url' post'. Split url' = pre @ m # post' \<longrightarrow>
            getVersionAndRepoFromUrl w url' = getVersionAndRepoFromUrl w url))
   \<and> ((\<forall>s\<in>set (Split url). \<not> matchVersion s) \<longrightarrow> snd (getVersionAndRepoFromUrl w url) = [])
   \<and> (matchVersion str \<longleftrightarrow>
        (\<exists>c d1 d2 d3 rest.
           str = c # d1 @ ''.'' @ d2 @ ''.'' @ d3 @ rest \<and> (c = CHR ''v'' \<or> c = CHR ''V'') \<and>
           d1 \<noteq> [] \<and> d2 \<noteq> [] \<and> d3 \<noteq> [] \<and> (\<forall>x\<in>set (d1 @ d2 @ d3). isDigit x)))"
proof (intro conjI impI allI)
  assume a: "Split url = pre @ m # post \<and> (\<forall>s\<in>set pre. \<not> matchVersion s) \<and> matchVersion m"
  then have pre: "\<forall>s\<in>set pre. \<not> matchVersion s" and m: "matchVersion m"
    and url: "Split url = pre @ m # post"
    by simp_all
  show "snd (getVersionAndRepoFromUrl w url) = m"
    using scanSegments_version [OF pre m, of w post 0 "- 1" "[]"] url
    by (cases "scanSegments w (pre @ m # post) 0 (- 1) []") (simp add: getVersionAndRepoFromUrl_def)
  fix url' post'
  assume "Split url' = pre @ m # post'"
  then show "getVersionAndRepoFromUrl w url' = getVersionAndRepoFromUrl w url"
    using scanSegments_stops [OF pre m, of w post 0 "- 1" "[]"]
      scanSegments_stops [OF pre m, of w post' 0 "- 1" "[]"] url
    by (simp add: getVersionAndRepoFromUrl_def)
next
  assume "\<forall>s\<in>set (Split url). \<not> matchVersion s"
  then show "snd (getVersionAndRepoFromUrl w url) = []"
    using scanSegments_no_version [of "Split url" w 0 "- 1" "[]"]
    by (cases "scanSegments w (Split url) 0 (- 1) []") (simp add: getVersionAndRepoFromUrl_def)
next
  show "matchVersion str \<longleftrightarrow>
        (\<exists>c d1 d2 d3 rest.
           str = c # d1 @ ''.'' @ d2 @ ''.'' @ d3 @ rest \<and> (c = CHR ''v'' \<or> c = CHR ''V'') \<and>
           d1 \<noteq> [] \<and> d2 \<noteq> [] \<and> d3 \<noteq> [] \<and> (\<forall>x\<in>set (d1 @ d2 @ d3). isDigit x))"
    by (rule matchVersion_iff)
qed

theorem extractor_first_version_tag_witness:
  "snd (getVersionAndRepoFromUrl (scenario None [] (Inr noPlan) (Inr 0))
          ''https://github.com/org/repo/releases/download/v1.2.3-rc1/V9.9.9/bin'')
     = ''v1.2.3-rc1''
   \<and> getVersionAndRepoFromUrl (scenario None [] (Inr noPlan) (Inr 0))
         ''https://github.com/org/repo/releases/download/v1.2.3-rc1/other''
     = getVersionAndRepoFromUrl (scenario None [] (Inr noPlan) (Inr 0))
         ''https://github.com/org/repo/releases/download/v1.2.3-rc1/V9.9.9/bin''
   \<and> snd (getVersionAndRepoFromUrl (scenario None [] (Inr noPlan) (Inr 0))
              ''https://github.com/org/repo/releases/latest'') = []
   \<and> \<not> matchVersion ''1.2.3''"
proof -
  let ?w = "scenario None [] (Inr noPlan) (Inr 0)"
  let ?url = "''https://github.com/org/repo/releases/download/v1.2.3-rc1/V9.9.9/bin''"
  let ?url' = "''https://github.com/org/repo/releases/download/v1.2.3-rc1/other''"
  let ?none = "''https://github.com/org/repo/releases/latest''"
  let ?pre = "[''https:'', [], ''github.com'', ''org'', ''repo'', ''releases'', ''download'']"
  have s: "Split ?url = ?pre @ ''v1.2.3-rc1'' # [''V9.9.9'', ''bin'']"
    "Split ?url' = ?pre @ ''v1.2.3-rc1'' # [''other'']"
    by simp_all
  have p: "\<forall>s\<in>set ?pre. \<not> matchVersion s" "matchVersion ''v1.2.3-rc1''"
    "\<forall>s\<in>set (Split ?none). \<not> matchVersion s"
    by (simp_all add: matchVersion_def digits1_def dot1_def isDigit_def)
  have no: "\<not> (\<exists>c d1 d2 d3 rest.
           ''1.2.3'' = c # d1 @ ''.'' @ d2 @ ''.'' @ d3 @ rest \<and> (c = CHR ''v'' \<or> c = CHR ''V'') \<and>
           d1 \<noteq> [] \<and> d2 \<noteq> [] \<and> d3 \<noteq> [] \<and> (\<forall>x\<in>set (d1 @ d2 @ d3). isDigit x))"
    by auto
  from extractor_first_version_tag
         [where w = ?w and url = ?url and pre = ?pre and m = "''v1.2.3-rc1''"
            and post = "[''V9.9.9'', ''bin'']" and str = "''1.2.3''"] s p(1,2)
  have "snd (getVersionAndRepoFromUrl ?w ?url) = ''v1.2.3-rc1''"
    "getVersionAndRepoFromUrl ?w ?url' = getVersionAndRepoFromUrl ?w ?url"
    by blast+
  moreover from extractor_first_version_tag [where w = ?w and url = ?none and str = "''1.2.3''"] p(3) no
  have "snd (getVersionAndRepoFromUrl ?w ?none) = []" "\<not> matchVersion ''1.2.3''"
    by blast+
  ultimately show ?thesis by simp
qed

text \<open>
  C9. The first poll changes the watcher even when it returns false: for a watcher not
  initialized, with the file readable, valid and past the height test, the call leaves
  \<open>initialized\<close> set, \<open>currentInfo\<close> the decoded plan and \<open>lastModTime\<close> the
  modification time of the file, whatever it returns; when the names are equal up to
  case it returns false, and \<open>initialized\<close> and \<open>lastModTime\<close> differ from before
  (and so does \<open>currentInfo\<close> when, as after construction, it had no name).
\<close>

theorem CheckUpdate_first_poll_mutates:
  assumes "\<not> initialized fw" and "\<not> needsUpdate fw"
    and "osStat w (filename fw) = Inr stat" and "After (ModTime stat) (lastModTime fw)"
    and "parseUpgradeInfoFile w (filename fw) (disableRecase fw) = Inr info"
    and "\<not> tooEarly w fw info"
    and "CheckUpdate w fw currentUpgrade = (r, fw', evs)"
  shows "initialized fw' \<and> currentInfo fw' = info \<and> lastModTime fw' = ModTime stat
       \<and> (EqualFold w (Name currentUpgrade) (Name info) \<longrightarrow>
            r = Returned False
            \<and> initialized fw' \<noteq> initialized fw \<and> lastModTime fw' \<noteq> lastModTime fw
            \<and> (Name (currentInfo fw) = [] \<longrightarrow> currentInfo fw' \<noteq> currentInfo fw))"
proof -
  have valid: "Name info \<noteq> []"
    using parseUpgradeInfoFile_valid [OF assms(5)] by simp
  have mod: "lastModTime fw \<noteq> ModTime stat"
    using assms(4) by (simp add: After_def)
  show ?thesis
    using CheckUpdate_first [OF assms(2-6) assms(1), of currentUpgrade] assms(1,7) valid mod
    by (auto split: if_splits)
qed

theorem CheckUpdate_first_poll_mutates_witness:
  "CheckUpdate (scenario (Some 5) ''{plan}'' (Inr upgradeA) (Inr 0)) (watching noPlan 0 False False) upgradeA
     = (Returned False, watching upgradeA 5 False True,
        pollEvents (scenario (Some 5) ''{plan}'' (Inr upgradeA) (Inr 0)) (watching noPlan 0 False False) upgradeA)"
proof -
  let ?fw = "watching noPlan 0 False False"
  let ?st = "\<lparr>ModTime = 5, IsDir = False\<rparr>"
  let ?w = "scenario (Some 5) ''{plan}'' (Inr upgradeA) (Inr 0)"
  obtain r fw' evs where c: "CheckUpdate ?w ?fw upgradeA = (r, fw', evs)"
    by (rule prod_cases3)
  have fw: "\<not> initialized ?fw" "\<not> needsUpdate ?fw" "After (ModTime ?st) (lastModTime ?fw)"
    by (simp_all add: watching_def After_def)
  have w: "osStat ?w (filename ?fw) = Inr ?st"
    "parseUpgradeInfoFile ?w (filename ?fw) (disableRecase ?fw) = Inr upgradeA"
    "\<not> tooEarly ?w ?fw upgradeA"
    by (simp_all add: scenario_simps)
  have names: "EqualFold ?w (Name upgradeA) (Name upgradeA)"
    by code_simp
  from CheckUpdate_first_poll_mutates [OF fw(1,2) w(1) fw(3) w(2,3) c] names
  have "r = Returned False" "initialized fw'" "currentInfo fw' = upgradeA" "lastModTime fw' = 5"
    by simp_all
  moreover have "CheckUpdate ?w ?fw upgradeA = (Returned False, watching upgradeA 5 False True, pollEvents ?w ?fw upgradeA)"
    by (simp add: CheckUpdate_first [OF fw(2) w(1) fw(3) w(2,3) fw(1)] names) (simp add: watching_def)
  ultimately show ?thesis by simp
qed

lemma monitorLoop_unchanged:
  assumes "CheckUpdate w fw currentUpgrade = (Returned False, fw, evs)"
  shows "monitorLoop fw currentUpgrade (replicate n (Tick w)) = (Polling, fw, concat (replicate n evs))"
  using assms by (induction n) simp_all

text \<open>
  C10. \<open>lastModTime\<close> changes only when a plan is adopted: a call that changes it has
  decoded a plan, made it \<open>currentInfo\<close> and taken the modification time of the file, on
  the first poll or for a plan higher than the accepted one. A call that reads a modified
  file and returns false because the height test stops it, or because the watcher is
  initialized and the plan is not higher than the accepted one, leaves the watcher as it
  is; so every further tick in the same surroundings makes the same calls again: the
  stat, the read and, \<^verbatim>\<open>json.Marshal\<close> not failing, the "upgrade detected" callback.
\<close>

theorem lastModTime_only_on_adoption:
  assumes "CheckUpdate w fw currentUpgrade = (r, fw', evs)"
  shows "(lastModTime fw' \<noteq> lastModTime fw \<longrightarrow>
            (\<exists>stat info. osStat w (filename fw) = Inr stat
               \<and> parseUpgradeInfoFile w (filename fw) (disableRecase fw) = Inr info
               \<and> lastModTime fw' = ModTime stat \<and> currentInfo fw' = info
               \<and> (\<not> initialized fw \<or> Height (currentInfo fw) < Height info)))
       \<and> (\<not> needsUpdate fw \<and> osStat w (filename fw) = Inr stat
           \<and> After (ModTime stat) (lastModTime fw)
           \<and> parseUpgradeInfoFile w (filename fw) (disableRecase fw) = Inr info
           \<and> (tooEarly w fw info \<or> initialized fw \<and> Height info \<le> Height (currentInfo fw)) \<longrightarrow>
            r = Returned False \<and> fw' = fw \<and> evs = pollEvents w fw info
            \<and> ((\<forall>cb. \<exists>js. jsonMarshal w cb = Inr js) \<longrightarrow>
                 set (upgradeDetectedCallback w (fst (notifyDetected w info))) \<subseteq> set evs)
            \<and> monitorLoop fw' currentUpgrade (replicate n (Tick w))
                = (Polling, fw, concat (replicate n evs)))"
proof (intro conjI impI)
  assume "lastModTime fw' \<noteq> lastModTime fw"
  with assms show "\<exists>stat info. osStat w (filename fw) = Inr stat
               \<and> parseUpgradeInfoFile w (filename fw) (disableRecase fw) = Inr info
               \<and> lastModTime fw' = ModTime stat \<and> currentInfo fw' = info
               \<and> (\<not> initialized fw \<or> Height (currentInfo fw) < Height info)"
    by (auto simp: CheckUpdate_def Let_def split: if_splits sum.splits)
next
  assume a: "\<not> needsUpdate fw \<and> osStat w (filename fw) = Inr stat
           \<and> After (ModTime stat) (lastModTime fw)
           \<and> parseUpgradeInfoFile w (filename fw) (disableRecase fw) = Inr info
           \<and> (tooEarly w fw info \<or> initialized fw \<and> Height info \<le> Height (currentInfo fw))"
  then have h: "\<not> needsUpdate fw" "osStat w (filename fw) = Inr stat"
    "After (ModTime stat) (lastModTime fw)"
    "parseUpgradeInfoFile w (filename fw) (disableRecase fw) = Inr info"
    by simp_all
  have c: "CheckUpdate w fw currentUpgrade = (Returned False, fw, pollEvents w fw info)"
  proof (cases "tooEarly w fw info")
    case True
    then show ?thesis by (rule CheckUpdate_tooEarly [OF h])
  next
    case False
    with a have i: "initialized fw" "Height info \<le> Height (currentInfo fw)" by auto
    from CheckUpdate_later [OF h False i(1), of currentUpgrade] i(2) show ?thesis by simp
  qed
  from trans [OF assms [symmetric] c]
  show r: "r = Returned False" and s: "fw' = fw" and e: "evs = pollEvents w fw info"
    by simp_all
  from c e have "CheckUpdate w fw currentUpgrade = (Returned False, fw, evs)" by simp
  then show "monitorLoop fw' currentUpgrade (replicate n (Tick w))
                = (Polling, fw, concat (replicate n evs))"
    unfolding s by (rule monitorLoop_unchanged)
  assume "\<forall>cb. \<exists>js. jsonMarshal w cb = Inr js"
  then show "set (upgradeDetectedCallback w (fst (notifyDetected w info))) \<subseteq> set evs"
    using notifyDetected_sent [of w info] e by auto
qed

theorem lastModTime_only_on_adoption_witness:
  "monitorLoop (watching upgradeA 3 False True) upgradeA
     (replicate 2 (Tick (scenario (Some 5) ''{plan}'' (Inr upgradeA) (Inr 250))))
   = (Polling, watching upgradeA 3 False True,
      pollEvents (scenario (Some 5) ''{plan}'' (Inr upgradeA) (Inr 250)) (watching upgradeA 3 False True) upgradeA
      @ pollEvents (scenario (Some 5) ''{plan}'' (Inr upgradeA) (Inr 250)) (watching upgradeA 3 False True) upgradeA)
   \<and> HttpPost ''http://deploy/internal/cosmos/n1/d1/cosmos_notify_upgrade'' ''application/json'' ''{callback}''
       \<in> set (pollEvents (scenario (Some 5) ''{plan}'' (Inr upgradeA) (Inr 250)) (watching upgradeA 3 False True) upgradeA)"
proof -
  let ?fw = "watching upgradeA 3 False True"
  let ?st = "\<lparr>ModTime = 5, IsDir = False\<rparr>"
  let ?w = "scenario (Some 5) ''{plan}'' (Inr upgradeA) (Inr 250)"
  obtain r fw' evs where c: "CheckUpdate ?w ?fw upgradeA = (r, fw', evs)"
    by (rule prod_cases3)
  have h: "\<not> needsUpdate ?fw" "osStat ?w (filename ?fw) = Inr ?st"
    "After (ModTime ?st) (lastModTime ?fw)"
    "parseUpgradeInfoFile ?w (filename ?fw) (disableRecase ?fw) = Inr upgradeA"
    "initialized ?fw \<and> Height upgradeA \<le> Height (currentInfo ?fw)"
    "\<forall>cb. \<exists>js. jsonMarshal ?w cb = Inr js"
    by (simp_all add: scenario_simps)
  have cb: "upgradeDetectedCallback ?w (fst (notifyDetected ?w upgradeA))
    = [Println ''upgrade callback to http://deploy/internal/cosmos/n1/d1/cosmos_notify_upgrade'',
       HttpPost ''http://deploy/internal/cosmos/n1/d1/cosmos_notify_upgrade'' ''application/json'' ''{callback}'']"
    by (simp add: scenario_def notifyDetected_def upgradeDetectedCallback_def Let_def split: prod.splits)
  from lastModTime_only_on_adoption [OF c, where stat = ?st and info = upgradeA and n = 2] h
  have "fw' = ?fw" "evs = pollEvents ?w ?fw upgradeA"
    "set (upgradeDetectedCallback ?w (fst (notifyDetected ?w upgradeA))) \<subseteq> set evs"
    "monitorLoop fw' upgradeA (replicate 2 (Tick ?w)) = (Polling, ?fw, concat (replicate 2 evs))"
    by blast+
  with cb show ?thesis
    by (simp add: numeral_2_eq_2)
qed

section \<open>The constructor\<close>

lemma newUpgradeFileWatcher_initial:
  assumes "newUpgradeFileWatcher w cfg = Inr fw"
  shows "\<not> initialized fw \<and> \<not> needsUpdate fw \<and> lastModTime fw = 0
       \<and> currentInfo fw = \<lparr>Name = [], Height = 0, Info = []\<rparr>"
  using assms
  by (auto simp: newUpgradeFileWatcher_def Let_def split: if_splits sum.splits)

lemma newUpgradeFileWatcher_scenario:
  "newUpgradeFileWatcher (scenario mt bytes decoded probe)
     \<lparr>UpgradeInfoFilePath = ''/node/data/upgrade-info.json'', CurrentBin = Inr ''/node/bin/appd'',
      PollInterval = 300, DisableRecase = True\<rparr>
   = Inr (watching noPlan 0 False False)"
  by (simp add: newUpgradeFileWatcher_def scenario_def watching_def noPlan_def)

end
